theory Spec2Isabelle
  imports Main
begin

section \<open>JavaScript values\<close>

text \<open>
  The arguments and response headers that reach \<^verbatim>\<open>static/js/htmx-modal.js\<close> are
  JavaScript values; nothing in the module checks their type, and \<^verbatim>\<open>showSweetAlert\<close>
  is exported as \<^verbatim>\<open>window.showAlert\<close>. The model has \<^verbatim>\<open>undefined\<close>,
  \<^verbatim>\<open>null\<close>, the strings, and every other value that has no method
  \<^verbatim>\<open>toUpperCase\<close> (a number, a boolean, a plain object, an array): such a value is
  given by whether it is truthy and by the string it converts to, so the number 42 is
  \<open>JOther True ''42''\<close> and \<^verbatim>\<open>false\<close> is \<open>JOther False ''false''\<close>.
\<close>

datatype jsval = JUndefined | JNull | JStr string | JOther bool string

text \<open>ToBoolean, as used by \<^verbatim>\<open>if (x)\<close> and \<^verbatim>\<open>x || y\<close>.\<close>

fun truthy :: "jsval \<Rightarrow> bool" where
  "truthy JUndefined = False"
| "truthy JNull = False"
| "truthy (JStr s) = (s \<noteq> [])"
| "truthy (JOther b s) = b"

text \<open>\<^verbatim>\<open>a || b\<close>: the left operand when it is truthy, the right one otherwise.\<close>

definition js_or :: "jsval \<Rightarrow> jsval \<Rightarrow> jsval" where
  "js_or a b = (if truthy a then a else b)"

text \<open>ToString, as used by a template literal \<^verbatim>\<open>`${x}`\<close> and by a property key.\<close>

fun toString :: "jsval \<Rightarrow> string" where
  "toString JUndefined = ''undefined''"
| "toString JNull = ''null''"
| "toString (JStr s) = s"
| "toString (JOther b s) = s"


definition upper_char :: "char \<Rightarrow> char" where
  "upper_char c =
     (let n = (of_char c :: nat) in if 97 \<le> n \<and> n \<le> 122 then char_of (n - 32) else c)"

datatype js_error = TypeError | ReferenceError

text \<open>
  The method call \<^verbatim>\<open>x.toUpperCase()\<close>: a string has the method; on
  \<^verbatim>\<open>undefined\<close> and \<^verbatim>\<open>null\<close>, and on a value that has no such method, the
  call raises a TypeError.
\<close>

definition is_string :: "jsval \<Rightarrow> bool" where
  "is_string v = (case v of JStr s \<Rightarrow> True | _ \<Rightarrow> False)"

fun toUpperCase :: "jsval \<Rightarrow> js_error + string" where
  "toUpperCase (JStr s) = Inr (map upper_char s)"
| "toUpperCase _ = Inl TypeError"

subsection \<open>Object literals and their inherited properties\<close>

text \<open>
  The three lookup tables of \<^verbatim>\<open>showSweetAlert\<close> are object literals, so a lookup
  \<^verbatim>\<open>table[key]\<close> that finds no own property continues in
  \<^verbatim>\<open>Object.prototype\<close>. The names below are the properties every object literal
  inherits in a browser; each of them yields a function or an object, which is truthy
  and is not a string.
\<close>

definition objectPrototypeKeys :: "string list" where
  "objectPrototypeKeys =
     [''constructor'', ''hasOwnProperty'', ''isPrototypeOf'', ''propertyIsEnumerable'',
      ''toLocaleString'', ''toString'', ''valueOf'', ''__proto__'',
      ''__defineGetter__'', ''__defineSetter__'', ''__lookupGetter__'', ''__lookupSetter__'']"

text \<open>
  The result of a property read: a primitive value, or the inherited member of
  \<^verbatim>\<open>Object.prototype\<close> of the given name.
\<close>

datatype propval = Prim jsval | Inherited string

fun prop_truthy :: "propval \<Rightarrow> bool" where
  "prop_truthy (Prim v) = truthy v"
| "prop_truthy (Inherited n) = True"

definition prop_or :: "propval \<Rightarrow> propval \<Rightarrow> propval" where
  "prop_or a b = (if prop_truthy a then a else b)"

definition getProp :: "(string \<times> string) list \<Rightarrow> jsval \<Rightarrow> propval" where
  "getProp obj key =
     (let k = toString key in
      case map_of obj k of
        Some v \<Rightarrow> Prim (JStr v)
      | None \<Rightarrow> if k \<in> set objectPrototypeKeys then Inherited k else Prim JUndefined)"

section \<open>Configuration\<close>

record config =
  modalId :: string
  modalContentId :: string
  modalBackdrop :: string
  modalKeyboard :: bool
  successAutoClose :: nat
  enableLogging :: bool

definition CONFIG :: config where
  "CONFIG = \<lparr> modalId = ''global-modal'', modalContentId = ''modal-content'',
              modalBackdrop = ''static'', modalKeyboard = False,
              successAutoClose = 3000, enableLogging = True \<rparr>"

section \<open>State of the page as the module sees it\<close>

text \<open>
  The \<^verbatim>\<open>detail\<close> of an HTMX event: the id of the target element and the response
  headers of the request (\<^verbatim>\<open>xhr.getResponseHeader\<close> returns a string, or
  \<^verbatim>\<open>null\<close> for a header that is not there).
\<close>

record htmx_detail =
  target_id :: string
  getResponseHeader :: "string \<Rightarrow> string option"

text \<open>The options object handed to \<^verbatim>\<open>Swal.fire\<close> by \<^verbatim>\<open>showSweetAlert\<close>.\<close>

record swal_options =
  icon :: propval
  title :: propval
  text_option :: jsval
  confirmButtonText :: string
  confirmButtonColor :: propval
  timer :: "nat option"
  timerProgressBar :: bool
  customClass_confirmButton :: string
  buttonsStyling :: bool

text \<open>The options of \<^verbatim>\<open>new bootstrap.Modal(modalElement, {...})\<close>.\<close>

record modal_options =
  backdrop :: string
  keyboard :: bool

text \<open>
  What the module does to the outside world, in order: lines written to the console,
  calls on the Bootstrap modal instance and calls of \<^verbatim>\<open>Swal.fire\<close>.
\<close>

datatype effect =
    ConsoleLog string "htmx_detail option"
  | ConsoleError string "htmx_detail option"
  | ModalShow
  | ModalHide
  | SwalFire swal_options

text \<open>The callbacks the module gives to \<^verbatim>\<open>setTimeout\<close>.\<close>

datatype task = CallShowSweetAlert jsval jsval jsval | CallHideModal

text \<open>
  \<^item> \<open>config\<close>: the \<^verbatim>\<open>CONFIG\<close> object (it is exported as
    \<^verbatim>\<open>window.HTMXModal.config\<close>, so the page can change it);
  \<^item> \<open>modalElement\<close>: whether \<^verbatim>\<open>document.getElementById(CONFIG.modalId)\<close> found
    an element when the script was loaded;
  \<^item> \<open>bootstrapDefined\<close>, \<open>swalDefined\<close>: whether the globals \<^verbatim>\<open>bootstrap\<close> and
    \<^verbatim>\<open>Swal\<close> are defined;
  \<^item> \<open>modalInstance\<close>: \<^verbatim>\<open>null\<close> or the Bootstrap modal built by \<^verbatim>\<open>initModal\<close>;
  \<^item> \<open>document\<close>: the \<^verbatim>\<open>innerHTML\<close> of every element that has an id;
  \<^item> \<open>effects\<close>: the effects so far; \<open>timers\<close>: the pending timeouts with their delay.
\<close>

record state =
  config :: config
  modalElement :: bool
  bootstrapDefined :: bool
  swalDefined :: bool
  modalInstance :: "modal_options option"
  document :: "string \<rightharpoonup> string"
  effects :: "effect list"
  timers :: "(task \<times> nat) list"

text \<open>A call returns or throws; what it did before throwing stays done.\<close>

datatype outcome = Returned | Threw js_error

type_synonym action = "state \<Rightarrow> outcome \<times> state"

definition seq :: "action \<Rightarrow> action \<Rightarrow> action" where
  "seq a b s = (case a s of (Returned, s1) \<Rightarrow> b s1 | (Threw e, s1) \<Rightarrow> (Threw e, s1))"

definition emit :: "effect \<Rightarrow> state \<Rightarrow> state" where
  "emit e s = s\<lparr>effects := effects s @ [e]\<rparr>"

section \<open>Utility functions\<close>

definition log :: "string \<Rightarrow> htmx_detail option \<Rightarrow> state \<Rightarrow> state" where
  "log message data s =
     (if enableLogging (config s) then emit (ConsoleLog (''[HTMX Modal] '' @ message) data) s
      else s)"

definition logError :: "string \<Rightarrow> htmx_detail option \<Rightarrow> state \<Rightarrow> state" where
  "logError message error s = emit (ConsoleError (''[HTMX Modal] '' @ message) error) s"

section \<open>Modal management\<close>

definition initModal :: "state \<Rightarrow> bool \<times> state" where
  "initModal s =
     (if modalElement s \<and> bootstrapDefined s then
        (True, log ''Modal instance initialized'' None
           (s\<lparr>modalInstance := Some \<lparr> backdrop = modalBackdrop (config s),
                                      keyboard = modalKeyboard (config s) \<rparr>\<rparr>))
      else
        (False, logError ''Failed to initialize modal - element or Bootstrap not found'' None s))"

text \<open>
  A method call on \<^verbatim>\<open>modalInstance\<close>: on \<^verbatim>\<open>null\<close> it raises a TypeError,
  on the instance it reaches the Bootstrap widget, which is taken to return normally.
\<close>

definition call_modalInstance :: "effect \<Rightarrow> action" where
  "call_modalInstance e s =
     (case modalInstance s of None \<Rightarrow> (Threw TypeError, s) | Some m \<Rightarrow> (Returned, emit e s))"

definition showModal :: action where
  "showModal s =
     (if modalInstance s \<noteq> None then
        seq (call_modalInstance ModalShow) (\<lambda>s1. (Returned, log ''Modal shown'' None s1)) s
      else (Returned, logError ''Cannot show modal - instance not initialized'' None s))"

definition hideModal :: action where
  "hideModal s =
     (if modalInstance s \<noteq> None then
        seq (call_modalInstance ModalHide) (\<lambda>s1. (Returned, log ''Modal hidden'' None s1)) s
      else (Returned, s))"

text \<open>
  The assignment \<^verbatim>\<open>contentElement.innerHTML = html\<close>, where \<^verbatim>\<open>contentElement\<close>
  is what \<^verbatim>\<open>document.getElementById(id)\<close> returned: on \<^verbatim>\<open>null\<close> it raises a
  TypeError.
\<close>

definition set_innerHTML :: "string \<Rightarrow> string \<Rightarrow> action" where
  "set_innerHTML elem_id html s =
     (case document s elem_id of
        None \<Rightarrow> (Threw TypeError, s)
      | Some old \<Rightarrow> (Returned, s\<lparr>document := (document s)(elem_id \<mapsto> html)\<rparr>))"

definition clearModalContent :: action where
  "clearModalContent s =
     (let contentId = modalContentId (config s) in
      if document s contentId \<noteq> None then
        seq (set_innerHTML contentId []) (\<lambda>s1. (Returned, log ''Modal content cleared'' None s1)) s
      else (Returned, s))"

definition loadingHTML :: string where
  \<open>loadingHTML =
     ''\<newline>'' @
     ''                <div class="modal-body text-center py-5">\<newline>'' @
     ''                    <div class="spinner-border text-primary" role="status" style="width: 3rem; height: 3rem;">\<newline>'' @
     ''                        <span class="visually-hidden">Loading...</span>\<newline>'' @
     ''                    </div>\<newline>'' @
     ''                    <p class="mt-3 text-muted">Loading...</p>\<newline>'' @
     ''                </div>\<newline>'' @
     ''            ''\<close>

definition showModalLoading :: action where
  "showModalLoading s =
     (let contentId = modalContentId (config s) in
      if document s contentId \<noteq> None then set_innerHTML contentId loadingHTML s
      else (Returned, s))"

section \<open>SweetAlert2 management\<close>

definition iconMap :: "(string \<times> string) list" where
  "iconMap =
     [(''success'', ''success''), (''error'', ''error''), (''warning'', ''warning''),
      (''info'', ''info''), (''question'', ''question'')]"

definition defaultTitles :: "(string \<times> string) list" where
  "defaultTitles =
     [(''success'', ''Success!''), (''error'', ''Error!''), (''warning'', ''Warning!''),
      (''info'', ''Information''), (''question'', ''Are you sure?'')]"

definition buttonColors :: "(string \<times> string) list" where
  "buttonColors =
     [(''success'', ''#28a745''), (''error'', ''#dc3545''), (''warning'', ''#ffc107''),
      (''info'', ''#17a2b8''), (''question'', ''#6c757d'')]"

text \<open>
  The call \<^verbatim>\<open>Swal.fire(options)\<close>: a ReferenceError when the global
  \<^verbatim>\<open>Swal\<close> is not defined, the widget's popup otherwise (the widget is taken
  to return normally).
\<close>

definition swal_fire :: "swal_options \<Rightarrow> action" where
  "swal_fire opts s =
     (if swalDefined s then (Returned, emit (SwalFire opts) s) else (Threw ReferenceError, s))"

definition showSweetAlert :: "jsval \<Rightarrow> jsval \<Rightarrow> jsval \<Rightarrow> action" where
  "showSweetAlert message type_arg title_arg s =
     (let type = js_or type_arg (JStr ''success'') in
      if \<not> swalDefined s then
        (let s1 = logError ''SweetAlert2 not loaded - falling back to console'' None s in
         case toUpperCase type of
           Inl e \<Rightarrow> (Threw e, s1)
         | Inr upper \<Rightarrow>
             (Returned,
              emit (ConsoleLog (''['' @ upper @ ''] '' @ toString (js_or title_arg (JStr []))
                                  @ '': '' @ toString message) None) s1))
      else
        (let icon_v = prop_or (getProp iconMap type) (Prim (JStr ''info''));
             alertTitle = prop_or (prop_or (Prim title_arg) (getProp defaultTitles type))
                                  (Prim (JStr ''Notification''));
             buttonColor = prop_or (getProp buttonColors type) (Prim (JStr ''#17a2b8''))
         in seq (swal_fire \<lparr> icon = icon_v, title = alertTitle, text_option = message,
                             confirmButtonText = ''OK'', confirmButtonColor = buttonColor,
                             timer = (if type = JStr ''success''
                                      then Some (successAutoClose (config s)) else None),
                             timerProgressBar = (type = JStr ''success''),
                             customClass_confirmButton = ''btn btn-primary'',
                             buttonsStyling = False \<rparr>)
                (\<lambda>s1. (Returned,
                   log (''SweetAlert shown: '' @ toString type @ '' - '' @ toString message)
                       None s1)) s))"

section \<open>Event handlers\<close>

text \<open>\<^verbatim>\<open>xhr.getResponseHeader(name)\<close> as a JavaScript value.\<close>

definition header :: "htmx_detail \<Rightarrow> string \<Rightarrow> jsval" where
  "header d name = (case getResponseHeader d name of None \<Rightarrow> JNull | Some v \<Rightarrow> JStr v)"

text \<open>\<^verbatim>\<open>setTimeout(callback, delay)\<close>: the callback waits among the timers.\<close>

definition setTimeout :: "task \<Rightarrow> nat \<Rightarrow> state \<Rightarrow> state" where
  "setTimeout t delay s = s\<lparr>timers := timers s @ [(t, delay)]\<rparr>"

fun run_task :: "task \<Rightarrow> action" where
  "run_task (CallShowSweetAlert message type_arg title_arg) =
     showSweetAlert message type_arg title_arg"
| "run_task CallHideModal = hideModal"

definition on_afterSwap :: "htmx_detail \<Rightarrow> action" where
  "on_afterSwap d s =
     (if target_id d = modalContentId (config s) then showModal s else (Returned, s))"

definition on_beforeRequest :: "htmx_detail \<Rightarrow> action" where
  "on_beforeRequest d s =
     (if target_id d = modalContentId (config s) then showModalLoading s else (Returned, s))"

definition on_beforeSwap :: "htmx_detail \<Rightarrow> action" where
  "on_beforeSwap d s =
     (let message = header d ''HX-Alert-Message'';
          type = header d ''HX-Alert-Type'';
          title_hdr = header d ''HX-Alert-Title'';
          s1 = (if truthy message
                then setTimeout (CallShowSweetAlert message (js_or type (JStr ''success''))
                                   title_hdr)
                       200 s
                else s);
          closeModal = header d ''HX-Close-Modal''
      in (Returned, if closeModal = JStr ''true'' then setTimeout CallHideModal 100 s1 else s1))"

definition on_responseError :: "htmx_detail \<Rightarrow> action" where
  "on_responseError d =
     seq (\<lambda>s. (Returned, logError ''HTMX response error'' (Some d) s))
       (seq (showSweetAlert
               (JStr ''An error occurred while processing your request. Please try again.'')
               (JStr ''error'') (JStr ''Request Failed''))
            hideModal)"

definition on_sendError :: "htmx_detail \<Rightarrow> action" where
  "on_sendError d =
     seq (\<lambda>s. (Returned, logError ''HTMX network error'' (Some d) s))
       (showSweetAlert
          (JStr ''Unable to connect to the server. Please check your internet connection and try again.'')
          (JStr ''error'') (JStr ''Connection Error''))"

definition on_timeout :: "htmx_detail \<Rightarrow> action" where
  "on_timeout d =
     seq (\<lambda>s. (Returned, logError ''HTMX timeout'' (Some d) s))
       (seq (showSweetAlert
               (JStr ''The request took too long to complete. Please try again.'')
               (JStr ''warning'') (JStr ''Request Timeout''))
            hideModal)"

text \<open>
  The \<^verbatim>\<open>detail\<close> of the custom event \<^verbatim>\<open>showAlert\<close>; an event dispatched
  without one has \<^verbatim>\<open>detail === null\<close>, and reading a property of it raises.
\<close>

record alert_detail =
  detail_message :: jsval
  detail_type :: jsval
  detail_title :: jsval

definition on_showAlert :: "alert_detail option \<Rightarrow> action" where
  "on_showAlert detail s =
     (case detail of
        None \<Rightarrow> (Threw TypeError, s)
      | Some d \<Rightarrow>
          showSweetAlert (js_or (detail_message d) (JStr ''Action completed''))
            (js_or (detail_type d) (JStr ''success'')) (js_or (detail_title d) JNull) s)"

definition on_closeModal :: action where
  "on_closeModal = hideModal"

definition on_hidden_bs_modal :: action where
  "on_hidden_bs_modal = clearModalContent"

text \<open>
  Initialisation, at once or on \<^verbatim>\<open>DOMContentLoaded\<close> (\<open>loading\<close> says which):
  \<^verbatim>\<open>initModal()\<close>, whose result is dropped, then a log line.
\<close>

definition initialize :: "bool \<Rightarrow> action" where
  "initialize loading s =
     (Returned,
      log (if loading then ''HTMX Modal Management initialized on DOMContentLoaded''
           else ''HTMX Modal Management initialized immediately'') None (snd (initModal s)))"

section \<open>The event router\<close>

datatype event =
    AfterSwap htmx_detail
  | BeforeRequest htmx_detail
  | BeforeSwap htmx_detail
  | ResponseError htmx_detail
  | SendError htmx_detail
  | Timeout htmx_detail
  | ShowAlert "alert_detail option"
  | CloseModal
  | HiddenBsModal
  | Initialize bool
  | TimerFired nat

text \<open>
  The listener of \<^verbatim>\<open>hidden.bs.modal\<close> is registered only \<^verbatim>\<open>if (modalElement)\<close>;
  a timer that fires leaves the list of timers and runs its callback.
\<close>

fun dispatch :: "event \<Rightarrow> action" where
  "dispatch (AfterSwap d) s = on_afterSwap d s"
| "dispatch (BeforeRequest d) s = on_beforeRequest d s"
| "dispatch (BeforeSwap d) s = on_beforeSwap d s"
| "dispatch (ResponseError d) s = on_responseError d s"
| "dispatch (SendError d) s = on_sendError d s"
| "dispatch (Timeout d) s = on_timeout d s"
| "dispatch (ShowAlert d) s = on_showAlert d s"
| "dispatch CloseModal s = on_closeModal s"
| "dispatch HiddenBsModal s = (if modalElement s then on_hidden_bs_modal s else (Returned, s))"
| "dispatch (Initialize loading) s = initialize loading s"
| "dispatch (TimerFired i) s =
     (if i < length (timers s)
      then run_task (fst (timers s ! i)) (s\<lparr>timers := take i (timers s) @ drop (Suc i) (timers s)\<rparr>)
      else (Returned, s))"

text \<open>
  The state when the script has been evaluated to its end, before any event: the
  configuration is \<^verbatim>\<open>CONFIG\<close>, the modal element has been looked up, and there
  is no modal instance yet.
\<close>

definition loaded :: "bool \<Rightarrow> bool \<Rightarrow> (string \<rightharpoonup> string) \<Rightarrow> state" where
  "loaded boot swal doc =
     \<lparr> config = CONFIG, modalElement = (doc (modalId CONFIG) \<noteq> None),
       bootstrapDefined = boot, swalDefined = swal, modalInstance = None,
       document = doc, effects = [], timers = [] \<rparr>"

text \<open>
  The reachable states: the module's own events, and what the rest of the page can do
  in between (change the document, load a library, change the exported configuration).
\<close>

inductive reachable :: "state \<Rightarrow> bool" where
  start: "reachable (loaded boot swal doc)"
| event: "reachable s \<Longrightarrow> reachable (snd (dispatch e s))"
| page: "reachable s \<Longrightarrow>
         reachable (s\<lparr>document := doc, bootstrapDefined := boot, swalDefined := swal, config := cfg\<rparr>)"

text \<open>The \<^verbatim>\<open>Swal.fire\<close> calls and the calls on the modal instance among some effects.\<close>

fun fired :: "effect list \<Rightarrow> swal_options list" where
  "fired [] = []"
| "fired (SwalFire opts # es) = opts # fired es"
| "fired (e # es) = fired es"

fun modal_calls :: "effect list \<Rightarrow> effect list" where
  "modal_calls [] = []"
| "modal_calls (ModalShow # es) = ModalShow # modal_calls es"
| "modal_calls (ModalHide # es) = ModalHide # modal_calls es"
| "modal_calls (e # es) = modal_calls es"

section \<open>Observing one call\<close>

text \<open>
  What running an action from a state adds: the effects, the \<^verbatim>\<open>Swal.fire\<close> calls
  among them, and the timers it sets. Effects and timers are only ever appended by the
  module's functions, so the new ones are those behind the old ones.
\<close>

definition new_effects :: "action \<Rightarrow> state \<Rightarrow> effect list" where
  "new_effects a s = drop (length (effects s)) (effects (snd (a s)))"

definition new_alerts :: "action \<Rightarrow> state \<Rightarrow> swal_options list" where
  "new_alerts a s = fired (new_effects a s)"

definition new_timers :: "action \<Rightarrow> state \<Rightarrow> (task \<times> nat) list" where
  "new_timers a s = drop (length (timers s)) (timers (snd (a s)))"

text \<open>The icon, the title and the button colour of an alert.\<close>

definition triple :: "swal_options \<Rightarrow> propval \<times> propval \<times> propval" where
  "triple opts = (icon opts, title opts, confirmButtonColor opts)"

text \<open>The kind a call of \<^verbatim>\<open>showSweetAlert\<close> works with: \<^verbatim>\<open>type || 'success'\<close>.\<close>

definition kind_of :: "jsval \<Rightarrow> jsval" where
  "kind_of type_arg = js_or type_arg (JStr ''success'')"

text \<open>A page with the modal and its content region, as the templates provide it.\<close>

definition example_page :: "string \<rightharpoonup> string" where
  "example_page = [''global-modal'' \<mapsto> ''<div id=modal-content><p>old</p></div>'',
                   ''modal-content'' \<mapsto> ''<p>old</p>'']"

text \<open>The detail of an HTMX event whose response has the given headers.\<close>

definition response :: "(string \<times> string) list \<Rightarrow> htmx_detail" where
  "response hs = \<lparr> target_id = ''modal-content'', getResponseHeader = map_of hs \<rparr>"

text \<open>The example page after a successful initialisation.\<close>

definition example_ready :: state where
  "example_ready = snd (initialize False (loaded True True example_page))"

text \<open>The modal handle exists only if the modal element was found when the script was loaded.\<close>

definition element_kept :: "state \<Rightarrow> bool" where
  "element_kept s \<longleftrightarrow> (modalInstance s \<noteq> None \<longrightarrow> modalElement s)"

section \<open>Basic facts\<close>

lemma log_fields [simp]:
  "config (log m d s) = config s" "modalInstance (log m d s) = modalInstance s"
  "document (log m d s) = document s" "timers (log m d s) = timers s"
  "swalDefined (log m d s) = swalDefined s" "modalElement (log m d s) = modalElement s"
  "bootstrapDefined (log m d s) = bootstrapDefined s"
  "effects (log m d s) =
     effects s @ (if enableLogging (config s) then [ConsoleLog (''[HTMX Modal] '' @ m) d] else [])"
  by (simp_all add: log_def emit_def)

lemma logError_fields [simp]:
  "config (logError m d s) = config s" "modalInstance (logError m d s) = modalInstance s"
  "document (logError m d s) = document s" "timers (logError m d s) = timers s"
  "swalDefined (logError m d s) = swalDefined s" "modalElement (logError m d s) = modalElement s"
  "bootstrapDefined (logError m d s) = bootstrapDefined s"
  "effects (logError m d s) = effects s @ [ConsoleError (''[HTMX Modal] '' @ m) d]"
  by (simp_all add: logError_def emit_def)

lemma emit_fields [simp]:
  "config (emit e s) = config s" "modalInstance (emit e s) = modalInstance s"
  "document (emit e s) = document s" "timers (emit e s) = timers s"
  "swalDefined (emit e s) = swalDefined s" "modalElement (emit e s) = modalElement s"
  "bootstrapDefined (emit e s) = bootstrapDefined s"
  "effects (emit e s) = effects s @ [e]"
  by (simp_all add: emit_def)

lemma fired_append [simp]: "fired (xs @ ys) = fired xs @ fired ys"
  by (induction xs rule: fired.induct) simp_all

lemma modal_calls_append [simp]: "modal_calls (xs @ ys) = modal_calls xs @ modal_calls ys"
  by (induction xs rule: modal_calls.induct) simp_all

lemma showSweetAlert_widget:
  assumes "swalDefined s"
  shows "showSweetAlert m t ti s =
    (Returned,
     log (''SweetAlert shown: '' @ toString (kind_of t) @ '' - '' @ toString m) None
       (emit (SwalFire
          \<lparr> icon = prop_or (getProp iconMap (kind_of t)) (Prim (JStr ''info'')),
            title = prop_or (prop_or (Prim ti) (getProp defaultTitles (kind_of t)))
                      (Prim (JStr ''Notification'')),
            text_option = m, confirmButtonText = ''OK'',
            confirmButtonColor = prop_or (getProp buttonColors (kind_of t)) (Prim (JStr ''#17a2b8'')),
            timer = (if kind_of t = JStr ''success'' then Some (successAutoClose (config s)) else None),
            timerProgressBar = (kind_of t = JStr ''success''),
            customClass_confirmButton = ''btn btn-primary'', buttonsStyling = False \<rparr>) s))"
  using assms by (simp add: showSweetAlert_def kind_of_def Let_def seq_def swal_fire_def)

lemma toUpperCase_kind_of:
  "\<not> truthy t \<or> is_string t \<Longrightarrow>
   toUpperCase (kind_of t) = Inr (map upper_char (toString (kind_of t)))"
  by (cases t) (simp_all add: kind_of_def js_or_def is_string_def)


lemma showSweetAlert_console:
  assumes "\<not> swalDefined s" and "\<not> truthy t \<or> is_string t"
  shows "showSweetAlert m t ti s =
    (Returned,
     emit (ConsoleLog (''['' @ map upper_char (toString (kind_of t)) @ ''] ''
                        @ toString (js_or ti (JStr [])) @ '': '' @ toString m) None)
       (logError ''SweetAlert2 not loaded - falling back to console'' None s))"
  using assms(1) toUpperCase_kind_of [OF assms(2)]
  by (simp add: showSweetAlert_def Let_def kind_of_def)


lemma showSweetAlert_returns:
  "swalDefined s \<or> \<not> truthy t \<or> is_string t \<Longrightarrow> fst (showSweetAlert m t ti s) = Returned"
  by (cases "swalDefined s") (auto simp: showSweetAlert_widget showSweetAlert_console)

lemma showSweetAlert_string_returns [simp]: "fst (showSweetAlert m (JStr k) ti s) = Returned"
  by (rule showSweetAlert_returns) (simp add: is_string_def)

lemma hideModal_eq:
  "hideModal s = (Returned, if modalInstance s \<noteq> None then log ''Modal hidden'' None (emit ModalHide s) else s)"
  by (auto simp: hideModal_def seq_def call_modalInstance_def)

lemma showModal_eq:
  "showModal s = (Returned, if modalInstance s \<noteq> None then log ''Modal shown'' None (emit ModalShow s)
     else logError ''Cannot show modal - instance not initialized'' None s)"
  by (auto simp: showModal_def seq_def call_modalInstance_def)

lemma clearModalContent_eq:
  "clearModalContent s =
     (Returned, if document s (modalContentId (config s)) \<noteq> None
        then log ''Modal content cleared'' None (s\<lparr>document := (document s)(modalContentId (config s) \<mapsto> [])\<rparr>)
        else s)"
  by (auto simp: clearModalContent_def seq_def set_innerHTML_def Let_def)

lemma showModalLoading_eq:
  "showModalLoading s =
     (Returned, if document s (modalContentId (config s)) \<noteq> None
        then s\<lparr>document := (document s)(modalContentId (config s) \<mapsto> loadingHTML)\<rparr>
        else s)"
  by (auto simp: showModalLoading_def set_innerHTML_def Let_def)

lemma new_effects_append:
  "effects (snd (a s)) = effects s @ es \<Longrightarrow> new_effects a s = es"
  by (simp add: new_effects_def)

lemma new_alerts_showSweetAlert:
  assumes "swalDefined s"
  shows "new_alerts (showSweetAlert m t ti) s =
    [\<lparr> icon = prop_or (getProp iconMap (kind_of t)) (Prim (JStr ''info'')),
       title = prop_or (prop_or (Prim ti) (getProp defaultTitles (kind_of t)))
                 (Prim (JStr ''Notification'')),
       text_option = m, confirmButtonText = ''OK'',
       confirmButtonColor = prop_or (getProp buttonColors (kind_of t)) (Prim (JStr ''#17a2b8'')),
       timer = (if kind_of t = JStr ''success'' then Some (successAutoClose (config s)) else None),
       timerProgressBar = (kind_of t = JStr ''success''),
       customClass_confirmButton = ''btn btn-primary'', buttonsStyling = False \<rparr>]"
  using assms by (simp add: new_alerts_def new_effects_def showSweetAlert_widget)

lemma kind_of_JStr: "k \<noteq> [] \<Longrightarrow> kind_of (JStr k) = JStr k"
  by (simp add: kind_of_def js_or_def)

lemma triple_known:
  assumes "swalDefined s" and "map_of iconMap k = Some i" and "map_of defaultTitles k = Some dt"
    and "map_of buttonColors k = Some c" and "k \<noteq> []" "i \<noteq> []" "dt \<noteq> []" "c \<noteq> []"
  shows "map triple (new_alerts (showSweetAlert m (JStr k) ti) s) =
           [(Prim (JStr i), if truthy ti then Prim ti else Prim (JStr dt), Prim (JStr c))]"
  using assms
  by (simp add: new_alerts_showSweetAlert triple_def kind_of_JStr getProp_def prop_or_def)

lemma triple_unknown:
  assumes "swalDefined s" and "k \<noteq> []"
    and "k \<notin> {''success'', ''error'', ''warning'', ''info'', ''question''}"
    and "k \<notin> set objectPrototypeKeys"
  shows "map triple (new_alerts (showSweetAlert m (JStr k) ti) s) =
           [(Prim (JStr ''info''), if truthy ti then Prim ti else Prim (JStr ''Notification''),
             Prim (JStr ''#17a2b8''))]"
  using assms
  by (simp add: new_alerts_showSweetAlert triple_def kind_of_JStr getProp_def prop_or_def
        iconMap_def defaultTitles_def buttonColors_def)

lemma setTimeout_fields [simp]:
  "config (setTimeout t n s) = config s" "modalInstance (setTimeout t n s) = modalInstance s"
  "document (setTimeout t n s) = document s" "effects (setTimeout t n s) = effects s"
  "swalDefined (setTimeout t n s) = swalDefined s" "modalElement (setTimeout t n s) = modalElement s"
  "bootstrapDefined (setTimeout t n s) = bootstrapDefined s"
  "timers (setTimeout t n s) = timers s @ [(t, n)]"
  by (simp_all add: setTimeout_def)

lemma on_beforeSwap_timers:
  "new_timers (on_beforeSwap d) s =
     (if truthy (header d ''HX-Alert-Message'')
      then [(CallShowSweetAlert (header d ''HX-Alert-Message'')
               (js_or (header d ''HX-Alert-Type'') (JStr ''success''))
               (header d ''HX-Alert-Title''), 200)]
      else []) @
     (if header d ''HX-Close-Modal'' = JStr ''true'' then [(CallHideModal, 100)] else [])"
  by (simp add: new_timers_def on_beforeSwap_def Let_def)

lemma on_beforeSwap_effects: "new_effects (on_beforeSwap d) s = []"
  by (simp add: new_effects_def on_beforeSwap_def Let_def)

lemma header_eq_JStr: "header d n = JStr v \<longleftrightarrow> getResponseHeader d n = Some v"
  by (simp add: header_def split: option.split)

lemma on_responseError_eq:
  "on_responseError d s =
     hideModal (snd (showSweetAlert
        (JStr ''An error occurred while processing your request. Please try again.'')
        (JStr ''error'') (JStr ''Request Failed'')
        (logError ''HTMX response error'' (Some d) s)))"
proof -
  obtain s1 where "showSweetAlert
        (JStr ''An error occurred while processing your request. Please try again.'')
        (JStr ''error'') (JStr ''Request Failed'')
        (logError ''HTMX response error'' (Some d) s) = (Returned, s1)"
    using showSweetAlert_string_returns by (metis prod.collapse)
  then show ?thesis
    by (simp add: on_responseError_def seq_def)
qed

lemma on_sendError_eq:
  "on_sendError d s =
     showSweetAlert
        (JStr ''Unable to connect to the server. Please check your internet connection and try again.'')
        (JStr ''error'') (JStr ''Connection Error'')
        (logError ''HTMX network error'' (Some d) s)"
  by (simp add: on_sendError_def seq_def)

lemma upper_error_chars:
  "upper_char CHR ''e'' = CHR ''E''" "upper_char CHR ''r'' = CHR ''R''"
  "upper_char CHR ''o'' = CHR ''O''"
  by code_simp+

lemma error_alert_effects:
  "effects (snd (showSweetAlert (JStr m) (JStr ''error'') (JStr ti) s)) =
     effects s @
     (if swalDefined s then
        [SwalFire \<lparr> icon = Prim (JStr ''error''),
                    title = (if ti = [] then Prim (JStr ''Error!'') else Prim (JStr ti)),
                    text_option = JStr m, confirmButtonText = ''OK'',
                    confirmButtonColor = Prim (JStr ''#dc3545''), timer = None,
                    timerProgressBar = False, customClass_confirmButton = ''btn btn-primary'',
                    buttonsStyling = False \<rparr>] @
        (if enableLogging (config s)
         then [ConsoleLog (''[HTMX Modal] SweetAlert shown: error - '' @ m) None] else [])
      else
        [ConsoleError ''[HTMX Modal] SweetAlert2 not loaded - falling back to console'' None,
         ConsoleLog (''[ERROR] '' @ ti @ '': '' @ m) None])"
proof (cases "swalDefined s")
  case True
  then show ?thesis
    by (simp add: showSweetAlert_widget kind_of_JStr getProp_def prop_or_def
          iconMap_def defaultTitles_def buttonColors_def)
next
  case False
  then show ?thesis
    by (simp add: showSweetAlert_console kind_of_JStr upper_error_chars js_or_def is_string_def)
qed

lemma showSweetAlert_frame:
  "modalInstance (snd (showSweetAlert m t ti s)) = modalInstance s"
  "document (snd (showSweetAlert m t ti s)) = document s"
  "timers (snd (showSweetAlert m t ti s)) = timers s"
  "config (snd (showSweetAlert m t ti s)) = config s"
  "swalDefined (snd (showSweetAlert m t ti s)) = swalDefined s"
  "modalElement (snd (showSweetAlert m t ti s)) = modalElement s"
  "bootstrapDefined (snd (showSweetAlert m t ti s)) = bootstrapDefined s"
  by (simp_all add: showSweetAlert_def Let_def seq_def swal_fire_def split: sum.split)

lemma hideModal_effects:
  "effects (snd (hideModal s)) =
     effects s @
     (if modalInstance s \<noteq> None
      then [ModalHide] @ (if enableLogging (config s)
                          then [ConsoleLog ''[HTMX Modal] Modal hidden'' None] else [])
      else [])"
  by (simp add: hideModal_eq)

lemma example_ready_fields:
  "swalDefined example_ready" "modalElement example_ready"
  "modalInstance example_ready = Some \<lparr> backdrop = ''static'', keyboard = False \<rparr>"
  "enableLogging (config example_ready)"
  "modalContentId (config example_ready) = ''modal-content''"
  "document example_ready = example_page"
  "timers example_ready = []"
  by (simp_all add: example_ready_def initialize_def initModal_def loaded_def CONFIG_def
        example_page_def)

lemma on_sendError_effects:
  "new_effects (on_sendError d) s =
       [ConsoleError ''[HTMX Modal] HTMX network error'' (Some d)] @
       (if swalDefined s then
          [SwalFire \<lparr> icon = Prim (JStr ''error''), title = Prim (JStr ''Connection Error''),
             text_option = JStr ''Unable to connect to the server. Please check your internet connection and try again.'',
             confirmButtonText = ''OK'', confirmButtonColor = Prim (JStr ''#dc3545''),
             timer = None, timerProgressBar = False,
             customClass_confirmButton = ''btn btn-primary'', buttonsStyling = False \<rparr>] @
          (if enableLogging (config s)
           then [ConsoleLog ''[HTMX Modal] SweetAlert shown: error - Unable to connect to the server. Please check your internet connection and try again.'' None]
           else [])
        else
          [ConsoleError ''[HTMX Modal] SweetAlert2 not loaded - falling back to console'' None,
           ConsoleLog ''[ERROR] Connection Error: Unable to connect to the server. Please check your internet connection and try again.'' None])"
  by (rule new_effects_append) (simp add: on_sendError_eq error_alert_effects)

lemma on_timeout_eq:
  "on_timeout d s =
     hideModal (snd (showSweetAlert
        (JStr ''The request took too long to complete. Please try again.'')
        (JStr ''warning'') (JStr ''Request Timeout'')
        (logError ''HTMX timeout'' (Some d) s)))"
proof -
  obtain s1 where "showSweetAlert
        (JStr ''The request took too long to complete. Please try again.'')
        (JStr ''warning'') (JStr ''Request Timeout'')
        (logError ''HTMX timeout'' (Some d) s) = (Returned, s1)"
    using showSweetAlert_string_returns by (metis prod.collapse)
  then show ?thesis
    by (simp add: on_timeout_def seq_def)
qed

lemma element_kept_dispatch: "element_kept s \<Longrightarrow> element_kept (snd (dispatch e s))"
proof (cases e)
  case (TimerFired i)
  assume "element_kept s"
  then show ?thesis
    using TimerFired
    by (cases "fst (timers s ! i)")
       (simp_all add: element_kept_def showSweetAlert_frame hideModal_eq)
next
  case (ShowAlert d)
  assume "element_kept s"
  then show ?thesis
    using ShowAlert
    by (cases d) (simp_all add: element_kept_def on_showAlert_def showSweetAlert_frame)
next
  case HiddenBsModal
  assume "element_kept s"
  then show ?thesis
    using HiddenBsModal
    by (auto simp: element_kept_def on_hidden_bs_modal_def clearModalContent_eq)
qed (simp_all add: element_kept_def on_afterSwap_def on_beforeRequest_def on_beforeSwap_def
       on_responseError_eq on_sendError_eq on_timeout_eq on_closeModal_def
       on_hidden_bs_modal_def initialize_def initModal_def showModal_eq hideModal_eq
       clearModalContent_eq showModalLoading_eq showSweetAlert_frame Let_def)

lemma reachable_element_kept: "reachable s \<Longrightarrow> element_kept s"
proof (induction rule: reachable.induct)
  case (start boot swal doc)
  show ?case by (simp add: element_kept_def loaded_def)
next
  case (event s e)
  from event.IH show ?case by (rule element_kept_dispatch)
next
  case (page s a b c d)
  then show ?case by (simp add: element_kept_def)
qed

lemma reachable_handle_has_element:
  "reachable s \<Longrightarrow> modalInstance s \<noteq> None \<Longrightarrow> modalElement s"
  using reachable_element_kept by (simp add: element_kept_def)

lemma reachable_example_ready: "reachable example_ready"
  unfolding example_ready_def
  using reachable.event [OF reachable.start, of "Initialize False" True True example_page]
  by simp

section \<open>The icon, title and colour of a notification\<close>

text \<open>
  Claim C1, as the code has it. With SweetAlert2 loaded, \<^verbatim>\<open>showSweetAlert\<close> called
  with one of the kinds success, error, warning, info and question fires one alert with
  that kind's icon, its default title (unless the caller gives a title) and its button
  colour: \<^verbatim>\<open>#28a745\<close> green, \<^verbatim>\<open>#dc3545\<close> red, \<^verbatim>\<open>#ffc107\<close> amber,
  \<^verbatim>\<open>#17a2b8\<close> teal, \<^verbatim>\<open>#6c757d\<close> gray. With any other non-empty kind that is
  not the name of a property inherited from \<^verbatim>\<open>Object.prototype\<close>, the alert has
  the info icon and the info colour, and its default title is \<^verbatim>\<open>Notification\<close>.
\<close>

theorem C1_icon_title_color:
  assumes "swalDefined s"
  shows "map triple (new_alerts (showSweetAlert m (JStr ''success'') ti) s) =
           [(Prim (JStr ''success''), if truthy ti then Prim ti else Prim (JStr ''Success!''),
             Prim (JStr ''#28a745''))]
       \<and> map triple (new_alerts (showSweetAlert m (JStr ''error'') ti) s) =
           [(Prim (JStr ''error''), if truthy ti then Prim ti else Prim (JStr ''Error!''),
             Prim (JStr ''#dc3545''))]
       \<and> map triple (new_alerts (showSweetAlert m (JStr ''warning'') ti) s) =
           [(Prim (JStr ''warning''), if truthy ti then Prim ti else Prim (JStr ''Warning!''),
             Prim (JStr ''#ffc107''))]
       \<and> map triple (new_alerts (showSweetAlert m (JStr ''info'') ti) s) =
           [(Prim (JStr ''info''), if truthy ti then Prim ti else Prim (JStr ''Information''),
             Prim (JStr ''#17a2b8''))]
       \<and> map triple (new_alerts (showSweetAlert m (JStr ''question'') ti) s) =
           [(Prim (JStr ''question''), if truthy ti then Prim ti else Prim (JStr ''Are you sure?''),
             Prim (JStr ''#6c757d''))]
       \<and> (k \<noteq> [] \<and> k \<notin> {''success'', ''error'', ''warning'', ''info'', ''question''}
            \<and> k \<notin> set objectPrototypeKeys \<longrightarrow>
          map triple (new_alerts (showSweetAlert m (JStr k) ti) s) =
           [(Prim (JStr ''info''), if truthy ti then Prim ti else Prim (JStr ''Notification''),
             Prim (JStr ''#17a2b8''))])"
proof -
  have 1: "map triple (new_alerts (showSweetAlert m (JStr ''success'') ti) s) =
           [(Prim (JStr ''success''), if truthy ti then Prim ti else Prim (JStr ''Success!''),
             Prim (JStr ''#28a745''))]"
    by (rule triple_known [OF assms]) (simp_all add: iconMap_def defaultTitles_def buttonColors_def)
  have 2: "map triple (new_alerts (showSweetAlert m (JStr ''error'') ti) s) =
           [(Prim (JStr ''error''), if truthy ti then Prim ti else Prim (JStr ''Error!''),
             Prim (JStr ''#dc3545''))]"
    by (rule triple_known [OF assms]) (simp_all add: iconMap_def defaultTitles_def buttonColors_def)
  have 3: "map triple (new_alerts (showSweetAlert m (JStr ''warning'') ti) s) =
           [(Prim (JStr ''warning''), if truthy ti then Prim ti else Prim (JStr ''Warning!''),
             Prim (JStr ''#ffc107''))]"
    by (rule triple_known [OF assms]) (simp_all add: iconMap_def defaultTitles_def buttonColors_def)
  have 4: "map triple (new_alerts (showSweetAlert m (JStr ''info'') ti) s) =
           [(Prim (JStr ''info''), if truthy ti then Prim ti else Prim (JStr ''Information''),
             Prim (JStr ''#17a2b8''))]"
    by (rule triple_known [OF assms]) (simp_all add: iconMap_def defaultTitles_def buttonColors_def)
  have 5: "map triple (new_alerts (showSweetAlert m (JStr ''question'') ti) s) =
           [(Prim (JStr ''question''), if truthy ti then Prim ti else Prim (JStr ''Are you sure?''),
             Prim (JStr ''#6c757d''))]"
    by (rule triple_known [OF assms]) (simp_all add: iconMap_def defaultTitles_def buttonColors_def)
  have 6: "k \<noteq> [] \<and> k \<notin> {''success'', ''error'', ''warning'', ''info'', ''question''}
            \<and> k \<notin> set objectPrototypeKeys \<longrightarrow>
          map triple (new_alerts (showSweetAlert m (JStr k) ti) s) =
           [(Prim (JStr ''info''), if truthy ti then Prim ti else Prim (JStr ''Notification''),
             Prim (JStr ''#17a2b8''))]"
  proof (intro impI, elim conjE)
    assume "k \<noteq> []" and "k \<notin> {''success'', ''error'', ''warning'', ''info'', ''question''}"
      and "k \<notin> set objectPrototypeKeys"
    then show "map triple (new_alerts (showSweetAlert m (JStr k) ti) s) =
           [(Prim (JStr ''info''), if truthy ti then Prim ti else Prim (JStr ''Notification''),
             Prim (JStr ''#17a2b8''))]"
      by (rule triple_unknown [OF assms])
  qed
  show ?thesis
    by (intro conjI) (rule 1, rule 2, rule 3, rule 4, rule 5, rule 6)
qed

theorem C1_icon_title_color_witness:
  "swalDefined (loaded True True example_page)
   \<and> map triple (new_alerts (showSweetAlert (JStr ''Saved'') (JStr ''warning'') JNull)
        (loaded True True example_page)) =
       [(Prim (JStr ''warning''), Prim (JStr ''Warning!''), Prim (JStr ''#ffc107''))]
   \<and> map triple (new_alerts (showSweetAlert (JStr ''Saved'') (JStr ''notice'') JNull)
        (loaded True True example_page)) =
       [(Prim (JStr ''info''), Prim (JStr ''Notification''), Prim (JStr ''#17a2b8''))]"
proof -
  have h: "swalDefined (loaded True True example_page)" by (simp add: loaded_def)
  show ?thesis
    using h C1_icon_title_color [OF h, of "JStr ''Saved''" JNull "''notice''"]
    by (simp add: objectPrototypeKeys_def)
qed

text \<open>
  Claim C1 as the specification states it fails: for the unrecognized kind
  \<^verbatim>\<open>notice\<close> the title is \<^verbatim>\<open>Notification\<close>, which is not the default title
  \<^verbatim>\<open>Information\<close> of the kind info.
\<close>

theorem C1_unrecognized_kind_counterexample:
  "map triple (new_alerts (showSweetAlert (JStr ''Saved'') (JStr ''notice'') JNull)
        (loaded True True example_page)) =
     [(Prim (JStr ''info''), Prim (JStr ''Notification''), Prim (JStr ''#17a2b8''))]
   \<and> map triple (new_alerts (showSweetAlert (JStr ''Saved'') (JStr ''notice'') JNull)
        (loaded True True example_page)) \<noteq>
     [(getProp iconMap (JStr ''info''), getProp defaultTitles (JStr ''info''),
       getProp buttonColors (JStr ''info''))]"
proof -
  have h: "swalDefined (loaded True True example_page)" by (simp add: loaded_def)
  have "map triple (new_alerts (showSweetAlert (JStr ''Saved'') (JStr ''notice'') JNull)
        (loaded True True example_page)) =
     [(Prim (JStr ''info''), Prim (JStr ''Notification''), Prim (JStr ''#17a2b8''))]"
    using triple_unknown [OF h, of "''notice''" "JStr ''Saved''" JNull]
    by (simp add: objectPrototypeKeys_def)
  moreover have "getProp defaultTitles (JStr ''info'') = Prim (JStr ''Information'')"
    by (simp add: getProp_def defaultTitles_def)
  ultimately show ?thesis by simp
qed

text \<open>
  A kind that names an inherited property, such as \<^verbatim>\<open>constructor\<close>, finds that
  property in all three tables, so none of the three fallbacks applies.
\<close>

lemma inherited_kind_example:
  "map triple (new_alerts (showSweetAlert (JStr ''Saved'') (JStr ''constructor'') JNull)
        (loaded True True example_page)) =
     [(Inherited ''constructor'', Inherited ''constructor'', Inherited ''constructor'')]"
  by (simp add: new_alerts_showSweetAlert loaded_def triple_def kind_of_JStr getProp_def
        prop_or_def iconMap_def defaultTitles_def buttonColors_def objectPrototypeKeys_def)

section \<open>Showing and hiding before initialisation\<close>

text \<open>
  Claim C2, as the code has it. While \<^verbatim>\<open>modalInstance\<close> is \<^verbatim>\<open>null\<close>,
  \<^verbatim>\<open>showModal\<close> returns normally and does nothing but write one error line to the
  console, and \<^verbatim>\<open>hideModal\<close> returns normally and does nothing at all: the state
  after it, console included, is the state before it.
\<close>

theorem C2_show_hide_uninitialized:
  assumes "modalInstance s = None"
  shows "showModal s =
           (Returned,
            s\<lparr>effects := effects s @
               [ConsoleError ''[HTMX Modal] Cannot show modal - instance not initialized'' None]\<rparr>)
       \<and> hideModal s = (Returned, s)"
  using assms by (simp add: showModal_eq hideModal_eq logError_def emit_def)

theorem C2_show_hide_uninitialized_witness:
  "modalInstance (loaded True True example_page) = None
   \<and> new_effects showModal (loaded True True example_page) =
       [ConsoleError ''[HTMX Modal] Cannot show modal - instance not initialized'' None]
   \<and> document (snd (showModal (loaded True True example_page))) = example_page
   \<and> hideModal (loaded True True example_page) = (Returned, loaded True True example_page)"
proof -
  have h: "modalInstance (loaded True True example_page) = None" by (simp add: loaded_def)
  show ?thesis
    using h C2_show_hide_uninitialized [OF h]
    by (simp add: new_effects_def) (simp add: loaded_def)
qed

text \<open>
  Claim C2 as the specification states it fails for \<^verbatim>\<open>hideModal\<close>: called before
  initialisation it writes nothing, so there is no logged error.
\<close>

theorem C2_hide_logs_nothing_counterexample:
  "modalInstance (loaded True True example_page) = None
   \<and> new_effects hideModal (loaded True True example_page) = []"
  by (simp add: new_effects_def hideModal_eq loaded_def)

section \<open>The auto-dismiss timer\<close>

text \<open>
  Claim C3. With SweetAlert2 loaded, every call of \<^verbatim>\<open>showSweetAlert\<close> fires one
  alert; when its kind (\<^verbatim>\<open>type || 'success'\<close>) is success, the alert's timer is the
  configured \<^verbatim>\<open>successAutoClose\<close> and its progress bar is on, and for every other
  kind the timer is \<^verbatim>\<open>null\<close> and the progress bar is off. The delay configured in
  \<^verbatim>\<open>CONFIG\<close> is 3000 ms.
\<close>

theorem C3_success_timer:
  assumes "swalDefined s"
  shows "map (\<lambda>opts. (timer opts, timerProgressBar opts)) (new_alerts (showSweetAlert m t ti) s) =
           [if kind_of t = JStr ''success'' then (Some (successAutoClose (config s)), True)
            else (None, False)]
       \<and> successAutoClose CONFIG = 3000"
  using assms by (simp add: new_alerts_showSweetAlert CONFIG_def)

theorem C3_success_timer_witness:
  "swalDefined (loaded True True example_page)
   \<and> map (\<lambda>opts. (timer opts, timerProgressBar opts))
        (new_alerts (showSweetAlert (JStr ''Saved'') (JStr ''success'') JNull)
           (loaded True True example_page)) = [(Some 3000, True)]
   \<and> map (\<lambda>opts. (timer opts, timerProgressBar opts))
        (new_alerts (showSweetAlert (JStr ''Saved'') JUndefined JNull)
           (loaded True True example_page)) = [(Some 3000, True)]
   \<and> map (\<lambda>opts. (timer opts, timerProgressBar opts))
        (new_alerts (showSweetAlert (JStr ''Lost'') (JStr ''error'') JNull)
           (loaded True True example_page)) = [(None, False)]"
proof -
  have h: "swalDefined (loaded True True example_page)" by (simp add: loaded_def)
  show ?thesis
    using h C3_success_timer [OF h, of "JStr ''Saved''" "JStr ''success''" JNull]
      C3_success_timer [OF h, of "JStr ''Saved''" JUndefined JNull]
      C3_success_timer [OF h, of "JStr ''Lost''" "JStr ''error''" JNull]
    by (simp add: kind_of_def js_or_def) (simp add: loaded_def CONFIG_def)
qed

section \<open>The console fallback\<close>




section \<open>The content region without a modal handle\<close>

text \<open>
  Claim C10. In every state, \<^verbatim>\<open>clearModalContent\<close> and
  \<^verbatim>\<open>showModalLoading\<close> return normally; when the content element exists they set
  its \<^verbatim>\<open>innerHTML\<close> (to the empty string, to the spinner), and when it does not
  exist they leave the state as it is, console included. Neither reads the modal handle:
  the same holds whatever \<^verbatim>\<open>modalInstance\<close> is, \<^verbatim>\<open>null\<close> included.
\<close>

theorem C10_content_without_handle:
  "(document s (modalContentId (config s)) = Some old \<longrightarrow>
      clearModalContent s =
        (Returned,
         log ''Modal content cleared'' None
           (s\<lparr>document := (document s)(modalContentId (config s) \<mapsto> [])\<rparr>))
      \<and> showModalLoading s =
        (Returned, s\<lparr>document := (document s)(modalContentId (config s) \<mapsto> loadingHTML)\<rparr>))
   \<and> (document s (modalContentId (config s)) = None \<longrightarrow>
      clearModalContent s = (Returned, s) \<and> showModalLoading s = (Returned, s))
   \<and> clearModalContent (s\<lparr>modalInstance := mi\<rparr>) =
        (fst (clearModalContent s), (snd (clearModalContent s))\<lparr>modalInstance := mi\<rparr>)
   \<and> showModalLoading (s\<lparr>modalInstance := mi\<rparr>) =
        (fst (showModalLoading s), (snd (showModalLoading s))\<lparr>modalInstance := mi\<rparr>)"
  by (simp add: clearModalContent_eq showModalLoading_eq log_def emit_def)

theorem C10_content_without_handle_witness:
  "modalInstance (loaded False False example_page) = None
   \<and> document (loaded False False example_page)
        (modalContentId (config (loaded False False example_page))) = Some ''<p>old</p>''
   \<and> fst (clearModalContent (loaded False False example_page)) = Returned
   \<and> document (snd (clearModalContent (loaded False False example_page))) ''modal-content'' = Some []
   \<and> showModalLoading (loaded False False example_page) =
       (Returned, (loaded False False example_page)\<lparr>document := example_page(''modal-content'' \<mapsto> loadingHTML)\<rparr>)
   \<and> document (loaded False False Map.empty)
        (modalContentId (config (loaded False False Map.empty))) = None
   \<and> clearModalContent (loaded False False Map.empty) = (Returned, loaded False False Map.empty)
   \<and> showModalLoading (loaded False False Map.empty) = (Returned, loaded False False Map.empty)"
proof -
  have a: "document (loaded False False example_page)
        (modalContentId (config (loaded False False example_page))) = Some ''<p>old</p>''"
    by (simp add: loaded_def CONFIG_def example_page_def)
  have b: "document (loaded False False Map.empty)
        (modalContentId (config (loaded False False Map.empty))) = None"
    by (simp add: loaded_def)
  have c: "modalInstance (loaded False False example_page) = None"
    by (simp add: loaded_def)
  have d: "modalContentId (config (loaded False False example_page)) = ''modal-content''"
     "document (loaded False False example_page) = example_page"
    by (simp_all add: loaded_def CONFIG_def)
  show ?thesis
    using a b c
      C10_content_without_handle [of "loaded False False example_page" "''<p>old</p>''" None]
      C10_content_without_handle [of "loaded False False Map.empty" "''<p>old</p>''" None]
    by (simp add: d)
qed

section \<open>The response headers\<close>

text \<open>
  Claim C4. The handler of \<^verbatim>\<open>htmx:beforeSwap\<close> sets a timer that calls
  \<^verbatim>\<open>hideModal\<close>, with a delay of 100 ms, exactly when the response header
  \<^verbatim>\<open>HX-Close-Modal\<close> is the string \<^verbatim>\<open>true\<close>; for any other value, and for
  a missing header, it sets no such timer. The handler itself returns normally and has
  no effect of its own, so nothing is hidden at once.
\<close>

theorem C4_close_modal_header:
  "filter (\<lambda>td. fst td = CallHideModal) (new_timers (on_beforeSwap d) s) =
     (if getResponseHeader d ''HX-Close-Modal'' = Some ''true'' then [(CallHideModal, 100)] else [])
   \<and> new_effects (on_beforeSwap d) s = []
   \<and> fst (on_beforeSwap d s) = Returned
   \<and> run_task CallHideModal = hideModal"
proof -
  have "filter (\<lambda>td. fst td = CallHideModal) (new_timers (on_beforeSwap d) s) =
     (if getResponseHeader d ''HX-Close-Modal'' = Some ''true'' then [(CallHideModal, 100)] else [])"
    by (simp add: on_beforeSwap_timers header_eq_JStr)
  moreover have "fst (on_beforeSwap d s) = Returned"
    by (simp add: on_beforeSwap_def Let_def)
  moreover have "run_task CallHideModal = hideModal"
    by (rule ext) simp
  ultimately show ?thesis
    by (simp add: on_beforeSwap_effects)
qed

theorem C4_close_modal_header_witness:
  "filter (\<lambda>td. fst td = CallHideModal)
     (new_timers (on_beforeSwap (response [(''HX-Close-Modal'', ''true'')]))
        (loaded True True example_page)) = [(CallHideModal, 100)]
   \<and> filter (\<lambda>td. fst td = CallHideModal)
     (new_timers (on_beforeSwap (response [(''HX-Close-Modal'', ''false'')]))
        (loaded True True example_page)) = []
   \<and> filter (\<lambda>td. fst td = CallHideModal)
     (new_timers (on_beforeSwap (response [(''HX-Close-Modal'', ''1'')]))
        (loaded True True example_page)) = []
   \<and> filter (\<lambda>td. fst td = CallHideModal)
     (new_timers (on_beforeSwap (response [])) (loaded True True example_page)) = []"
proof -
  have 1: "getResponseHeader (response [(''HX-Close-Modal'', ''true'')]) ''HX-Close-Modal'' = Some ''true''"
    by (simp add: response_def)
  have 2: "getResponseHeader (response [(''HX-Close-Modal'', ''false'')]) ''HX-Close-Modal'' \<noteq> Some ''true''"
    by (simp add: response_def)
  have 3: "getResponseHeader (response [(''HX-Close-Modal'', ''1'')]) ''HX-Close-Modal'' \<noteq> Some ''true''"
    by (simp add: response_def)
  have 4: "getResponseHeader (response []) ''HX-Close-Modal'' \<noteq> Some ''true''"
    by (simp add: response_def)
  show ?thesis
    using C4_close_modal_header [of "response [(''HX-Close-Modal'', ''true'')]" "loaded True True example_page"]
      C4_close_modal_header [of "response [(''HX-Close-Modal'', ''false'')]" "loaded True True example_page"]
      C4_close_modal_header [of "response [(''HX-Close-Modal'', ''1'')]" "loaded True True example_page"]
      C4_close_modal_header [of "response []" "loaded True True example_page"]
    by (simp only: 1 2 3 4 if_True if_False simp_thms)
qed

text \<open>
  Claim C5, as the code has it. When the response has a non-empty
  \<^verbatim>\<open>HX-Alert-Message\<close> header and no \<^verbatim>\<open>HX-Alert-Type\<close> header, the handler of
  \<^verbatim>\<open>htmx:beforeSwap\<close> sets one timer of 200 ms that calls \<^verbatim>\<open>showSweetAlert\<close>
  with that message, the kind success and the \<^verbatim>\<open>HX-Alert-Title\<close> header; when that
  header is absent too and SweetAlert2 is loaded as the timer fires, the alert has the
  success icon, the title \<^verbatim>\<open>Success!\<close> and the message as its text.
\<close>

theorem C5_alert_message_header:
  assumes "getResponseHeader d ''HX-Alert-Message'' = Some m" and "m \<noteq> []"
    and "getResponseHeader d ''HX-Alert-Type'' = None"
  shows "filter (\<lambda>td. fst td \<noteq> CallHideModal) (new_timers (on_beforeSwap d) s) =
           [(CallShowSweetAlert (JStr m) (JStr ''success'') (header d ''HX-Alert-Title''), 200)]
       \<and> new_effects (on_beforeSwap d) s = []
       \<and> (swalDefined s' \<and> getResponseHeader d ''HX-Alert-Title'' = None \<longrightarrow>
            map (\<lambda>opts. (icon opts, title opts, text_option opts))
              (new_alerts (run_task (CallShowSweetAlert (JStr m) (JStr ''success'')
                                       (header d ''HX-Alert-Title''))) s') =
            [(Prim (JStr ''success''), Prim (JStr ''Success!''), JStr m)])"
proof -
  have hm: "header d ''HX-Alert-Message'' = JStr m" and ht: "header d ''HX-Alert-Type'' = JNull"
    using assms by (simp_all add: header_def)
  have 1: "filter (\<lambda>td. fst td \<noteq> CallHideModal) (new_timers (on_beforeSwap d) s) =
           [(CallShowSweetAlert (JStr m) (JStr ''success'') (header d ''HX-Alert-Title''), 200)]"
    using assms(2) by (simp add: on_beforeSwap_timers hm ht js_or_def)
  have 2: "swalDefined s' \<and> getResponseHeader d ''HX-Alert-Title'' = None \<longrightarrow>
            map (\<lambda>opts. (icon opts, title opts, text_option opts))
              (new_alerts (run_task (CallShowSweetAlert (JStr m) (JStr ''success'')
                                       (header d ''HX-Alert-Title''))) s') =
            [(Prim (JStr ''success''), Prim (JStr ''Success!''), JStr m)]"
    by (simp add: new_alerts_showSweetAlert header_def kind_of_JStr getProp_def prop_or_def
          iconMap_def defaultTitles_def)
  show ?thesis
    by (intro conjI) (rule 1, rule on_beforeSwap_effects, rule 2)
qed

theorem C5_alert_message_header_witness:
  "getResponseHeader (response [(''HX-Alert-Message'', ''Saved'')]) ''HX-Alert-Message'' = Some ''Saved''
   \<and> getResponseHeader (response [(''HX-Alert-Message'', ''Saved'')]) ''HX-Alert-Type'' = None
   \<and> filter (\<lambda>td. fst td \<noteq> CallHideModal)
     (new_timers (on_beforeSwap (response [(''HX-Alert-Message'', ''Saved'')]))
        (loaded True True example_page)) =
     [(CallShowSweetAlert (JStr ''Saved'') (JStr ''success'') JNull, 200)]
   \<and> map (\<lambda>opts. (icon opts, title opts, text_option opts))
        (new_alerts (run_task (CallShowSweetAlert (JStr ''Saved'') (JStr ''success'') JNull))
           (loaded True True example_page)) =
       [(Prim (JStr ''success''), Prim (JStr ''Success!''), JStr ''Saved'')]"
proof -
  have m: "getResponseHeader (response [(''HX-Alert-Message'', ''Saved'')]) ''HX-Alert-Message'' = Some ''Saved''"
    by (simp add: response_def)
  have n: "''Saved'' \<noteq> []"
    by simp
  have t: "getResponseHeader (response [(''HX-Alert-Message'', ''Saved'')]) ''HX-Alert-Type'' = None"
    by (simp add: response_def)
  have i: "getResponseHeader (response [(''HX-Alert-Message'', ''Saved'')]) ''HX-Alert-Title'' = None"
    by (simp add: response_def)
  have j: "header (response [(''HX-Alert-Message'', ''Saved'')]) ''HX-Alert-Title'' = JNull"
    by (simp add: header_def i)
  have h: "swalDefined (loaded True True example_page)"
    by (simp add: loaded_def)
  show ?thesis
    using C5_alert_message_header [OF m n t, of "loaded True True example_page"
        "loaded True True example_page"]
    by (simp only: m t i j h simp_thms)
qed

text \<open>
  Claim C5 as the specification states it fails for a header that is there with an empty
  value: \<^verbatim>\<open>if (message)\<close> is false for the empty string, so no timer is set and
  nothing is shown.
\<close>

theorem C5_empty_message_counterexample:
  "getResponseHeader (response [(''HX-Alert-Message'', [])]) ''HX-Alert-Message'' = Some []
   \<and> getResponseHeader (response [(''HX-Alert-Message'', [])]) ''HX-Alert-Type'' = None
   \<and> new_timers (on_beforeSwap (response [(''HX-Alert-Message'', [])]))
        (loaded True True example_page) = []
   \<and> new_effects (on_beforeSwap (response [(''HX-Alert-Message'', [])]))
        (loaded True True example_page) = []"
  by (simp add: on_beforeSwap_timers on_beforeSwap_effects header_def response_def)

section \<open>Failed requests\<close>

text \<open>
  Claim C6. In every state, the handler of \<^verbatim>\<open>htmx:responseError\<close> returns normally.
  It logs the event, notifies once with the kind error, the title
  \<^verbatim>\<open>Request Failed\<close> and the message \<^verbatim>\<open>An error occurred while processing your
  request. Please try again.\<close> (one \<^verbatim>\<open>Swal.fire\<close>, or the one console line of the
  fallback when SweetAlert2 is not loaded), and then calls \<^verbatim>\<open>hideModal\<close> once: the
  final state is that of \<^verbatim>\<open>hideModal\<close> run after the notification, which hides the
  modal instance once when there is one. The effects are these and no others.
\<close>

theorem C6_response_error:
  "fst (on_responseError d s) = Returned
   \<and> on_responseError d s =
       hideModal (snd (showSweetAlert
          (JStr ''An error occurred while processing your request. Please try again.'')
          (JStr ''error'') (JStr ''Request Failed'')
          (logError ''HTMX response error'' (Some d) s)))
   \<and> new_effects (on_responseError d) s =
       [ConsoleError ''[HTMX Modal] HTMX response error'' (Some d)] @
       (if swalDefined s then
          [SwalFire \<lparr> icon = Prim (JStr ''error''), title = Prim (JStr ''Request Failed''),
             text_option = JStr ''An error occurred while processing your request. Please try again.'',
             confirmButtonText = ''OK'', confirmButtonColor = Prim (JStr ''#dc3545''),
             timer = None, timerProgressBar = False,
             customClass_confirmButton = ''btn btn-primary'', buttonsStyling = False \<rparr>] @
          (if enableLogging (config s)
           then [ConsoleLog ''[HTMX Modal] SweetAlert shown: error - An error occurred while processing your request. Please try again.'' None]
           else [])
        else
          [ConsoleError ''[HTMX Modal] SweetAlert2 not loaded - falling back to console'' None,
           ConsoleLog ''[ERROR] Request Failed: An error occurred while processing your request. Please try again.'' None]) @
       (if modalInstance s \<noteq> None
        then [ModalHide] @ (if enableLogging (config s)
                            then [ConsoleLog ''[HTMX Modal] Modal hidden'' None] else [])
        else [])"
proof -
  have r: "fst (on_responseError d s) = Returned"
    by (simp add: on_responseError_eq hideModal_eq)
  have e: "new_effects (on_responseError d) s =
       [ConsoleError ''[HTMX Modal] HTMX response error'' (Some d)] @
       (if swalDefined s then
          [SwalFire \<lparr> icon = Prim (JStr ''error''), title = Prim (JStr ''Request Failed''),
             text_option = JStr ''An error occurred while processing your request. Please try again.'',
             confirmButtonText = ''OK'', confirmButtonColor = Prim (JStr ''#dc3545''),
             timer = None, timerProgressBar = False,
             customClass_confirmButton = ''btn btn-primary'', buttonsStyling = False \<rparr>] @
          (if enableLogging (config s)
           then [ConsoleLog ''[HTMX Modal] SweetAlert shown: error - An error occurred while processing your request. Please try again.'' None]
           else [])
        else
          [ConsoleError ''[HTMX Modal] SweetAlert2 not loaded - falling back to console'' None,
           ConsoleLog ''[ERROR] Request Failed: An error occurred while processing your request. Please try again.'' None]) @
       (if modalInstance s \<noteq> None
        then [ModalHide] @ (if enableLogging (config s)
                            then [ConsoleLog ''[HTMX Modal] Modal hidden'' None] else [])
        else [])"
    by (rule new_effects_append)
       (simp add: on_responseError_eq hideModal_effects showSweetAlert_frame error_alert_effects)
  show ?thesis
    by (intro conjI) (rule r, rule on_responseError_eq, rule e)
qed

theorem C6_response_error_witness:
  "modal_calls (new_effects (on_responseError (response [])) example_ready) = [ModalHide]
   \<and> fired (new_effects (on_responseError (response [])) example_ready) =
       [\<lparr> icon = Prim (JStr ''error''), title = Prim (JStr ''Request Failed''),
          text_option = JStr ''An error occurred while processing your request. Please try again.'',
          confirmButtonText = ''OK'', confirmButtonColor = Prim (JStr ''#dc3545''),
          timer = None, timerProgressBar = False,
          customClass_confirmButton = ''btn btn-primary'', buttonsStyling = False \<rparr>]
   \<and> modal_calls (new_effects (on_responseError (response [])) (loaded True True example_page)) = []
   \<and> length (fired (new_effects (on_responseError (response [])) (loaded True True example_page))) = 1"
proof -
  have a: "swalDefined (loaded True True example_page)"
    "modalInstance (loaded True True example_page) = None"
    by (simp_all add: loaded_def)
  show ?thesis
    using C6_response_error [of "response []" example_ready]
      C6_response_error [of "response []" "loaded True True example_page"]
    by (simp add: example_ready_fields a)
qed

text \<open>
  Claim C7. In every state, the handler of \<^verbatim>\<open>htmx:sendError\<close> returns normally,
  logs the event and notifies once with the kind error, the title
  \<^verbatim>\<open>Connection Error\<close> and the message \<^verbatim>\<open>Unable to connect to the server. Please
  check your internet connection and try again.\<close>; it makes no call on the modal
  instance, and leaves the instance, the document and the timers as they are.
\<close>

theorem C7_send_error:
  "fst (on_sendError d s) = Returned
   \<and> new_effects (on_sendError d) s =
       [ConsoleError ''[HTMX Modal] HTMX network error'' (Some d)] @
       (if swalDefined s then
          [SwalFire \<lparr> icon = Prim (JStr ''error''), title = Prim (JStr ''Connection Error''),
             text_option = JStr ''Unable to connect to the server. Please check your internet connection and try again.'',
             confirmButtonText = ''OK'', confirmButtonColor = Prim (JStr ''#dc3545''),
             timer = None, timerProgressBar = False,
             customClass_confirmButton = ''btn btn-primary'', buttonsStyling = False \<rparr>] @
          (if enableLogging (config s)
           then [ConsoleLog ''[HTMX Modal] SweetAlert shown: error - Unable to connect to the server. Please check your internet connection and try again.'' None]
           else [])
        else
          [ConsoleError ''[HTMX Modal] SweetAlert2 not loaded - falling back to console'' None,
           ConsoleLog ''[ERROR] Connection Error: Unable to connect to the server. Please check your internet connection and try again.'' None])
   \<and> modal_calls (new_effects (on_sendError d) s) = []
   \<and> modalInstance (snd (on_sendError d s)) = modalInstance s
   \<and> document (snd (on_sendError d s)) = document s
   \<and> timers (snd (on_sendError d s)) = timers s"
proof -
  have r: "fst (on_sendError d s) = Returned"
    by (simp add: on_sendError_eq)
  have m: "modal_calls (new_effects (on_sendError d) s) = []"
    by (simp add: on_sendError_effects)
  have f: "modalInstance (snd (on_sendError d s)) = modalInstance s"
    "document (snd (on_sendError d s)) = document s"
    "timers (snd (on_sendError d s)) = timers s"
    by (simp_all add: on_sendError_eq showSweetAlert_frame)
  show ?thesis
    by (intro conjI) (rule r, rule on_sendError_effects, rule m, rule f(1), rule f(2), rule f(3))
qed

theorem C7_send_error_witness:
  "fired (new_effects (on_sendError (response [])) example_ready) =
       [\<lparr> icon = Prim (JStr ''error''), title = Prim (JStr ''Connection Error''),
          text_option = JStr ''Unable to connect to the server. Please check your internet connection and try again.'',
          confirmButtonText = ''OK'', confirmButtonColor = Prim (JStr ''#dc3545''),
          timer = None, timerProgressBar = False,
          customClass_confirmButton = ''btn btn-primary'', buttonsStyling = False \<rparr>]
   \<and> modal_calls (new_effects (on_sendError (response [])) example_ready) = []
   \<and> modalInstance (snd (on_sendError (response []) example_ready)) =
       Some \<lparr> backdrop = ''static'', keyboard = False \<rparr>"
  using C7_send_error [of "response []" example_ready]
  by (simp add: example_ready_fields)

section \<open>The end of the hide transition\<close>

text \<open>
  Claim C9. Bootstrap dispatches \<^verbatim>\<open>hidden.bs.modal\<close> on the modal element when the
  hide transition is over. Whenever that element was found at load time, and so in every
  reachable state in which the module holds a modal instance, the event runs
  \<^verbatim>\<open>clearModalContent\<close>, which returns normally, and afterwards the content element,
  if the page has one, has the empty string as its \<^verbatim>\<open>innerHTML\<close>.
\<close>

theorem C9_hidden_clears_content:
  assumes "modalElement s \<or> (reachable s \<and> modalInstance s \<noteq> None)"
  shows "dispatch HiddenBsModal s = clearModalContent s
       \<and> fst (dispatch HiddenBsModal s) = Returned
       \<and> document (snd (dispatch HiddenBsModal s))
           (modalContentId (config (snd (dispatch HiddenBsModal s)))) =
         map_option (\<lambda>old. []) (document s (modalContentId (config s)))"
proof -
  from assms have "modalElement s"
    using reachable_handle_has_element by blast
  then show ?thesis
    by (cases "document s (modalContentId (config s))")
       (simp_all add: on_hidden_bs_modal_def clearModalContent_eq)
qed

theorem C9_hidden_clears_content_witness:
  "reachable example_ready \<and> modalInstance example_ready \<noteq> None
   \<and> document example_ready ''modal-content'' = Some ''<p>old</p>''
   \<and> fst (dispatch HiddenBsModal example_ready) = Returned
   \<and> document (snd (dispatch HiddenBsModal example_ready)) ''modal-content'' = Some []"
proof -
  have h: "modalElement example_ready \<or> (reachable example_ready \<and> modalInstance example_ready \<noteq> None)"
    by (simp add: example_ready_fields)
  have r: "reachable example_ready \<and> modalInstance example_ready \<noteq> None"
    by (simp add: reachable_example_ready example_ready_fields)
  have c: "modalContentId (config (snd (clearModalContent example_ready))) = ''modal-content''"
    by (simp add: clearModalContent_eq example_ready_fields)
  have o: "document example_ready ''modal-content'' = Some ''<p>old</p>''"
    by (simp add: example_ready_fields example_page_def)
  show ?thesis
    using r C9_hidden_clears_content [OF h] o
    by (simp add: c example_ready_fields on_hidden_bs_modal_def)
qed

end
